theory Spec2Isabelle
  imports Main
begin

section \<open>Strings and numbers as the source uses them\<close>

text \<open>
  JavaScript strings are sequences of code units; they are modelled as \<open>string\<close>.
  \<open>js_includes\<close> is \<^verbatim>\<open>String.prototype.includes\<close>, \<open>slice_last n\<close> is
  \<^verbatim>\<open>s.slice(-n)\<close>, and \<open>show_nat\<close>/\<open>show_int\<close> are what a template literal prints for
  an integral number.
\<close>

fun js_includes :: "string \<Rightarrow> string \<Rightarrow> bool" where
  "js_includes [] sub = (sub = [])"
| "js_includes (c # cs) sub = (take (length sub) (c # cs) = sub \<or> js_includes cs sub)"

definition slice_last :: "nat \<Rightarrow> string \<Rightarrow> string" where
  "slice_last n s = drop (length s - n) s"

definition digit :: "nat \<Rightarrow> char" where
  "digit d = (''0123456789'' ! d)"

fun show_nat :: "nat \<Rightarrow> string" where
  "show_nat n = (if n < 10 then [digit n] else show_nat (n div 10) @ [digit (n mod 10)])"

declare show_nat.simps [simp del]

definition show_int :: "int \<Rightarrow> string" where
  "show_int i = (if i < 0 then ''-'' @ show_nat (nat (- i)) else show_nat (nat i))"

definition truthy :: "string option \<Rightarrow> bool" where
  "truthy x = (case x of None \<Rightarrow> False | Some s \<Rightarrow> s \<noteq> [])"

section \<open>The host: child processes, timers, the network\<close>

text \<open>
  A promise is pending, fulfilled with a value, or rejected with the message of the
  \<^verbatim>\<open>Error\<close> it carries.
\<close>

datatype 'a promise = Pending | Fulfilled 'a | Rejected string

datatype signal = SIGTERM | SIGKILL

text \<open>
  How a child process ends: on its own with an exit code, or terminated by a signal (then
  Node leaves \<^verbatim>\<open>exitCode\<close> null and sets \<^verbatim>\<open>signalCode\<close>).
\<close>

datatype exit_status = ExitCode int | ExitSignal string

text \<open>The outcome of one \<^verbatim>\<open>fetch\<close>: it throws (network error, abort on timeout) or
  yields a response with a status.\<close>

datatype fetch_result = Threw | Response nat

definition ok :: "nat \<Rightarrow> bool" where
  "ok status = (200 \<le> status \<and> status \<le> 299)"

text \<open>
  One task of the event loop that concerns a given child process and the wait on it:
  a chunk on one of its pipes, its exit, the firing of the interval or of a one-shot timer,
  the completion of a poll request, or time passing. The schedule of a process is the
  list of these tasks in the order the event loop runs them; it is chosen by the
  environment. The model does not tie the firing of timers to the clock, so every real
  execution corresponds to some schedule.
\<close>

datatype event =
    StdoutData string
  | StderrData string
  | ProcExit exit_status
  | IntervalFire
  | FetchDone fetch_result
  | TimeoutFire
  | ForceKillFire
  | Elapse nat

text \<open>
  The handle of a child process: the fields of \<^verbatim>\<open>ChildProcess\<close> the source reads
  (\<open>killed\<close>, \<open>exitCode\<close>) and the one that decides what \<^verbatim>\<open>kill\<close> does
  (\<open>signalCode\<close>), the two buffers \<^verbatim>\<open>stdout\<close> and \<^verbatim>\<open>stderr\<close> that
  \<^verbatim>\<open>startService\<close> closes over, and the rest of the process's schedule.
\<close>

record child =
  killed :: bool
  exitCode :: "int option"
  signalCode :: "string option"
  outBuf :: string
  errBuf :: string
  future :: "event list"

record world =
  hasGpu :: bool
  now :: int
  processEnv :: "string \<rightharpoonup> string"
  launch :: "string \<Rightarrow> string list \<Rightarrow> string option \<Rightarrow> (string \<rightharpoonup> string) \<Rightarrow> event list"
  procs :: "nat \<Rightarrow> child"
  nextPid :: nat
  activeProcesses :: "nat list"
  signals :: "(nat \<times> signal) list"
  http :: "string \<Rightarrow> fetch_result"
  procStatus :: "nat \<Rightarrow> string option"

definition terminated :: "child \<Rightarrow> bool" where
  "terminated c = (exitCode c \<noteq> None \<or> signalCode c \<noteq> None)"

definition updProc :: "nat \<Rightarrow> (child \<Rightarrow> child) \<Rightarrow> world \<Rightarrow> world" where
  "updProc p f w = w\<lparr>procs := (procs w)(p := f (procs w p))\<rparr>"

text \<open>
  \<^verbatim>\<open>proc.kill(sig)\<close>: while the process has not terminated the signal is delivered and
  \<open>killed\<close> becomes true; afterwards the call does nothing.
\<close>

definition kill :: "nat \<Rightarrow> signal \<Rightarrow> world \<Rightarrow> world" where
  "kill p sig w =
     (if terminated (procs w p) then w
      else (updProc p (\<lambda>c. c\<lparr>killed := True\<rparr>) w)\<lparr>signals := signals w @ [(p, sig)]\<rparr>)"

text \<open>\<^verbatim>\<open>spawn\<close>: a new handle whose schedule the environment fixes. Spawning is assumed
  to succeed.\<close>

definition spawn ::
  "string \<Rightarrow> string list \<Rightarrow> string option \<Rightarrow> (string \<rightharpoonup> string) \<Rightarrow> world \<Rightarrow> nat \<times> world" where
  "spawn cmd as dir e w =
     (let p = nextPid w in
      (p, w\<lparr>nextPid := Suc p,
            procs := (procs w)(p := \<lparr>killed = False, exitCode = None, signalCode = None,
                                      outBuf = [], errBuf = [],
                                      future = launch w cmd as dir e\<rparr>)\<rparr>))"

definition registerProcess :: "nat \<Rightarrow> world \<Rightarrow> world" where
  "registerProcess p w =
     w\<lparr>activeProcesses :=
         (if p \<in> set (activeProcesses w) then activeProcesses w else activeProcesses w @ [p])\<rparr>"

text \<open>The exit of a process: the handle records how it ended, and the listener that
  \<^verbatim>\<open>registerProcess\<close> installed removes it from the registry.\<close>

definition onExit :: "nat \<Rightarrow> exit_status \<Rightarrow> world \<Rightarrow> world" where
  "onExit p st w =
     (if terminated (procs w p) then w
      else (updProc p (\<lambda>c. case st of ExitCode n \<Rightarrow> c\<lparr>exitCode := Some n\<rparr>
                                     | ExitSignal s \<Rightarrow> c\<lparr>signalCode := Some s\<rparr>) w)
             \<lparr>activeProcesses := removeAll p (activeProcesses w)\<rparr>)"

text \<open>What an event does whatever is being awaited: the data listeners append to the
  buffers, an exit is recorded, the clock advances.\<close>

definition baseEvent :: "nat \<Rightarrow> event \<Rightarrow> world \<Rightarrow> world" where
  "baseEvent p e w =
     (case e of
        StdoutData chunk \<Rightarrow> updProc p (\<lambda>c. c\<lparr>outBuf := outBuf c @ chunk\<rparr>) w
      | StderrData chunk \<Rightarrow> updProc p (\<lambda>c. c\<lparr>errBuf := errBuf c @ chunk\<rparr>) w
      | ProcExit st \<Rightarrow> onExit p st w
      | Elapse n \<Rightarrow> w\<lparr>now := now w + int n\<rparr>
      | _ \<Rightarrow> w)"

text \<open>Running the event loop until the awaited promise settles: the events are handed
  to the handler one by one; what is left of the schedule is returned.\<close>

fun drive :: "(event \<Rightarrow> 's \<Rightarrow> 's) \<Rightarrow> ('s \<Rightarrow> bool) \<Rightarrow> event list \<Rightarrow> 's \<Rightarrow> 's \<times> event list" where
  "drive h done [] s = (s, [])"
| "drive h done (e # es) s = (if done s then (s, e # es) else drive h done es (h e s))"

section \<open>Service definition\<close>

record Ready =
  signal :: "string option"
  url :: "string option"
  pollMs :: "nat option"

record Health =
  url :: string

record Requires =
  gpu :: "bool option"
  minRamMb :: "nat option"
  minVramMb :: "nat option"

record ServiceConfig =
  name :: string
  command :: string
  args :: "string list option"
  cwd :: "string option"
  env :: "(string \<rightharpoonup> string) option"
  ready :: Ready
  health :: "Health option"
  startTimeoutMs :: "nat option"
  stopTimeoutMs :: "nat option"
  requires :: "Requires option"

record ProcessStats =
  pid :: nat
  uptimeMs :: int
  memoryMb :: "int option"

record RunningService =
  name :: string
  pid :: nat
  stdout :: "world \<Rightarrow> string"
  stderr :: "world \<Rightarrow> string"
  startupMs :: int
  isAlive :: "world \<Rightarrow> bool"
  isHealthy :: "world \<Rightarrow> bool promise"
  stop :: "world \<Rightarrow> unit promise \<times> world"
  stats :: "world \<Rightarrow> ProcessStats"

section \<open>Internal helpers\<close>

subsection \<open>waitForReady\<close>

text \<open>The promise of \<^verbatim>\<open>waitForReady\<close> and its two timers.\<close>

record wait =
  result :: "unit promise"
  timeoutSet :: bool
  intervalSet :: bool
  inflight :: nat

definition settle :: "unit promise \<Rightarrow> wait \<Rightarrow> wait" where
  "settle r ws = (if result ws = Pending then ws\<lparr>result := r\<rparr> else ws)"

definition getOutput :: "nat \<Rightarrow> world \<Rightarrow> string" where
  "getOutput p w = outBuf (procs w p) @ errBuf (procs w p)"

definition notReadyMessage :: "string \<Rightarrow> nat \<Rightarrow> string \<Rightarrow> string" where
  "notReadyMessage nm timeoutMs output =
     ''['' @ nm @ ''] Not ready within '' @ show_nat timeoutMs @ ''ms.'' @ [CHR 0x0A]
       @ ''Output: '' @ slice_last 500 output"

definition exitedMessage :: "string \<Rightarrow> int \<Rightarrow> string \<Rightarrow> string" where
  "exitedMessage nm code output =
     ''['' @ nm @ ''] Exited with code '' @ show_int code @ '' before ready.'' @ [CHR 0x0A]
       @ ''Output: '' @ slice_last 500 output"

definition noReadyMessage :: "string \<Rightarrow> string" where
  "noReadyMessage nm = ''['' @ nm @ ''] No ready signal or URL configured''"

text \<open>The executor of the promise: the timeout is armed, then the interval of the
  strategy that applies; with neither a signal nor a URL the timeout is cleared and the
  promise is rejected at once.\<close>

definition waitInit :: "string \<Rightarrow> Ready \<Rightarrow> wait" where
  "waitInit nm rd =
     (if truthy (signal rd) then
        \<lparr>result = Pending, timeoutSet = True, intervalSet = True, inflight = 0\<rparr>
      else if truthy (Ready.url rd) then
        \<lparr>result = Pending, timeoutSet = True, intervalSet = True, inflight = 0\<rparr>
      else
        \<lparr>result = Rejected (noReadyMessage nm), timeoutSet = False, intervalSet = False,
         inflight = 0\<rparr>)"

text \<open>The callback of the start timeout.\<close>

definition onTimeout :: "nat \<Rightarrow> string \<Rightarrow> nat \<Rightarrow> wait \<times> world \<Rightarrow> wait \<times> world" where
  "onTimeout p nm timeoutMs s =
     (case s of (ws, w) \<Rightarrow>
        let w' = kill p SIGKILL w in
        (settle (Rejected (notReadyMessage nm timeoutMs (getOutput p w')))
                (ws\<lparr>timeoutSet := False\<rparr>), w'))"

text \<open>The callback of the 50 ms interval of the signal strategy: \<^verbatim>\<open>check()\<close>, then
  the test of the exit code.\<close>

definition onSignalInterval :: "nat \<Rightarrow> string \<Rightarrow> string \<Rightarrow> wait \<times> world \<Rightarrow> wait \<times> world" where
  "onSignalInterval p nm sig s =
     (case s of (ws, w) \<Rightarrow>
        let ws1 = (if js_includes (getOutput p w) sig
                   then (settle (Fulfilled ()) (ws\<lparr>timeoutSet := False\<rparr>))\<lparr>intervalSet := False\<rparr>
                   else ws) in
        (case exitCode (procs w p) of
           None \<Rightarrow> (ws1, w)
         | Some code \<Rightarrow>
             (settle (Rejected (exitedMessage nm code (getOutput p w)))
                     (ws1\<lparr>intervalSet := False, timeoutSet := False\<rparr>), w)))"

text \<open>The URL strategy: each firing of the interval starts a request; its completion
  is a later task.\<close>

definition onFetchDone :: "fetch_result \<Rightarrow> wait \<times> world \<Rightarrow> wait \<times> world" where
  "onFetchDone r s =
     (case s of (ws, w) \<Rightarrow>
        if inflight ws = 0 then (ws, w)
        else
          let ws1 = ws\<lparr>inflight := inflight ws - 1\<rparr> in
          (case r of
             Threw \<Rightarrow> (ws1, w)
           | Response status \<Rightarrow>
               if ok status
               then (settle (Fulfilled ()) (ws1\<lparr>intervalSet := False, timeoutSet := False\<rparr>), w)
               else (ws1, w)))"

text \<open>
  One task of the event loop while \<^verbatim>\<open>startService\<close> awaits \<^verbatim>\<open>waitForReady\<close>: a timer
  that has been cleared does not fire, the interval runs the callback of the strategy in
  use, and every other event only reaches the listeners that are always there.
\<close>

definition waitStep :: "nat \<Rightarrow> string \<Rightarrow> Ready \<Rightarrow> nat \<Rightarrow> event \<Rightarrow> wait \<times> world \<Rightarrow> wait \<times> world" where
  "waitStep p nm rd timeoutMs e s =
     (case e of
        TimeoutFire \<Rightarrow> if timeoutSet (fst s) then onTimeout p nm timeoutMs s else s
      | IntervalFire \<Rightarrow>
          if \<not> intervalSet (fst s) then s
          else if truthy (signal rd) then onSignalInterval p nm (the (signal rd)) s
          else (fst s\<lparr>inflight := Suc (inflight (fst s))\<rparr>, snd s)
      | FetchDone r \<Rightarrow> onFetchDone r s
      | _ \<Rightarrow> (fst s, baseEvent p e (snd s)))"

text \<open>
  \<^verbatim>\<open>await waitForReady(...)\<close>: the executor runs, then the tasks of the schedule run
  until the promise is settled. A schedule that ends before that leaves it pending.
\<close>

definition waitForReady :: "nat \<Rightarrow> string \<Rightarrow> Ready \<Rightarrow> nat \<Rightarrow> world \<Rightarrow> unit promise \<times> world" where
  "waitForReady p nm rd timeoutMs w =
     (case drive (waitStep p nm rd timeoutMs) (\<lambda>s. result (fst s) \<noteq> Pending)
                 (future (procs w p)) (waitInit nm rd, w) of
        ((ws, w'), rest) \<Rightarrow> (result ws, updProc p (\<lambda>c. c\<lparr>future := rest\<rparr>) w'))"

subsection \<open>stopProcess\<close>

text \<open>
  One task of the event loop while \<^verbatim>\<open>stopProcess\<close> is awaited: the exit of the
  process clears the force-kill timer and resolves; the force-kill timer sends SIGKILL
  and resolves.
\<close>

definition stopStep :: "nat \<Rightarrow> event \<Rightarrow> unit promise \<times> world \<Rightarrow> unit promise \<times> world" where
  "stopStep p e s =
     (case e of
        ProcExit st \<Rightarrow>
          if terminated (procs (snd s) p) then s else (Fulfilled (), onExit p st (snd s))
      | ForceKillFire \<Rightarrow> (Fulfilled (), kill p SIGKILL (snd s))
      | _ \<Rightarrow> (fst s, baseEvent p e (snd s)))"

text \<open>
  \<^verbatim>\<open>stopProcess\<close>: nothing to do for a handle that is marked killed or holds an exit
  code; otherwise the force-kill timer is armed, the exit listener is installed and
  SIGTERM is sent, and the promise is awaited. It has no way to reject.
\<close>

definition stopProcess :: "nat \<Rightarrow> string \<Rightarrow> nat \<Rightarrow> world \<Rightarrow> unit promise \<times> world" where
  "stopProcess p nm timeoutMs w =
     (if killed (procs w p) \<or> exitCode (procs w p) \<noteq> None then (Fulfilled (), w)
      else
        (case drive (stopStep p) (\<lambda>s. fst s \<noteq> Pending) (future (procs w p))
                    (Pending, kill p SIGTERM w) of
           ((r, w'), rest) \<Rightarrow> (r, updProc p (\<lambda>c. c\<lparr>future := rest\<rparr>) w')))"

subsection \<open>getProcessMemory and checkGpu\<close>

text \<open>
  \<^verbatim>\<open>status.match(/VmRSS:\s+(\d+)\s+kB/)\<close>: the leftmost match, and its group of digits.
  The three repetitions are greedy and the classes that follow each other are disjoint,
  so at each start position the longest runs are the only candidates. \<open>isSpace\<close> lists
  the white space characters among the first 256 code units.
\<close>

definition isSpace :: "char \<Rightarrow> bool" where
  "isSpace c = (c \<in> set [CHR '' '', CHR 0x09, CHR 0x0A, CHR 0x0B, CHR 0x0C, CHR 0x0D, CHR 0xA0])"

definition isDigit :: "char \<Rightarrow> bool" where
  "isDigit c = (c \<in> set ''0123456789'')"

definition matchHere :: "string \<Rightarrow> string option" where
  "matchHere s =
     (if take 6 s = ''VmRSS:'' then
        (let r1 = drop 6 s;
             sp1 = takeWhile isSpace r1; r2 = dropWhile isSpace r1;
             ds = takeWhile isDigit r2; r3 = dropWhile isDigit r2;
             sp2 = takeWhile isSpace r3; r4 = dropWhile isSpace r3
         in if sp1 \<noteq> [] \<and> ds \<noteq> [] \<and> sp2 \<noteq> [] \<and> take 2 r4 = ''kB'' then Some ds else None)
      else None)"

fun matchVmRSS :: "string \<Rightarrow> string option" where
  "matchVmRSS [] = matchHere []"
| "matchVmRSS (c # cs) =
     (case matchHere (c # cs) of Some ds \<Rightarrow> Some ds | None \<Rightarrow> matchVmRSS cs)"

definition number_of_digits :: "string \<Rightarrow> nat" where
  "number_of_digits ds = foldl (\<lambda>acc c. 10 * acc + (of_char c - 48)) 0 ds"

text \<open>\<^verbatim>\<open>Math.round(Number(match[1]) / 1024)\<close> rounds halves up; reading the file or
  a status without the line gives null.\<close>

definition getProcessMemory :: "nat \<Rightarrow> world \<Rightarrow> int option" where
  "getProcessMemory p w =
     (case procStatus w p of
        None \<Rightarrow> None
      | Some status \<Rightarrow>
          (case matchVmRSS status of
             None \<Rightarrow> None
           | Some ds \<Rightarrow> Some (int ((number_of_digits ds + 512) div 1024))))"

definition checkGpu :: "world \<Rightarrow> bool" where
  "checkGpu w = hasGpu w"

section \<open>Start a service\<close>

definition gpuMessage :: "string \<Rightarrow> string" where
  "gpuMessage nm = ''['' @ nm @ ''] Requires GPU but none detected. Skip with: scenario.skip(...)''"

text \<open>The object \<^verbatim>\<open>startService\<close> returns: its operations close over the process,
  the start time, the health descriptor and the stop timeout.\<close>

definition runningService ::
  "string \<Rightarrow> nat \<Rightarrow> int \<Rightarrow> int \<Rightarrow> Health option \<Rightarrow> nat \<Rightarrow> RunningService" where
  "runningService nm p startedAt startup hl stopTimeout =
     \<lparr>RunningService.name = nm,
      RunningService.pid = p,
      stdout = (\<lambda>w. outBuf (procs w p)),
      stderr = (\<lambda>w. errBuf (procs w p)),
      startupMs = startup,
      isAlive = (\<lambda>w. \<not> killed (procs w p) \<and> exitCode (procs w p) = None),
      isHealthy = (\<lambda>w.
        case hl of
          None \<Rightarrow> Fulfilled (\<not> killed (procs w p) \<and> exitCode (procs w p) = None)
        | Some h \<Rightarrow>
            if Health.url h = [] then Fulfilled (\<not> killed (procs w p) \<and> exitCode (procs w p) = None)
            else (case http w (Health.url h) of
                    Threw \<Rightarrow> Fulfilled False
                  | Response status \<Rightarrow> Fulfilled (ok status))),
      stop = (\<lambda>w. stopProcess p nm stopTimeout w),
      stats = (\<lambda>w. \<lparr>ProcessStats.pid = p, uptimeMs = now w - startedAt,
                     memoryMb = getProcessMemory p w\<rparr>)\<rparr>"

definition startService :: "ServiceConfig \<Rightarrow> world \<Rightarrow> RunningService promise \<times> world" where
  "startService config w =
     (let nm = ServiceConfig.name config;
          as = (case args config of None \<Rightarrow> [] | Some a \<Rightarrow> a);
          startTimeout = (case startTimeoutMs config of None \<Rightarrow> 15000 | Some t \<Rightarrow> t);
          stopTimeout = (case stopTimeoutMs config of None \<Rightarrow> 5000 | Some t \<Rightarrow> t)
      in
      if (case requires config of None \<Rightarrow> False | Some rq \<Rightarrow> gpu rq = Some True) \<and> \<not> checkGpu w
      then (Rejected (gpuMessage nm), w)
      else
        (let startedAt = now w in
         case spawn (command config) as (cwd config)
                (case env config of None \<Rightarrow> processEnv w | Some e \<Rightarrow> processEnv w ++ e) w of
           (p, w1) \<Rightarrow>
             (case waitForReady p nm (ready config) startTimeout (registerProcess p w1) of
                (Pending, w3) \<Rightarrow> (Pending, w3)
              | (Rejected m, w3) \<Rightarrow> (Rejected m, w3)
              | (Fulfilled u, w3) \<Rightarrow>
                  (Fulfilled (runningService nm p startedAt (now w3 - startedAt)
                                (health config) stopTimeout), w3))))"

section \<open>Service cluster\<close>

record ServiceCluster =
  services :: "RunningService list"
  stopAll :: "world \<Rightarrow> unit promise \<times> world"
  get :: "string \<Rightarrow> RunningService option"
  isHealthy :: "world \<Rightarrow> bool promise"

text \<open>The loop \<^verbatim>\<open>for (const s of ...) await s.stop().catch(() => {})\<close>: a rejection
  of a stop is dropped; a stop that never settles leaves the loop waiting.\<close>

fun stopEach :: "RunningService list \<Rightarrow> world \<Rightarrow> unit promise \<times> world" where
  "stopEach [] w = (Fulfilled (), w)"
| "stopEach (s # ss) w =
     (case stop s w of
        (Pending, w') \<Rightarrow> (Pending, w')
      | (Fulfilled u, w') \<Rightarrow> stopEach ss w'
      | (Rejected m, w') \<Rightarrow> stopEach ss w')"

text \<open>The loop in the \<^verbatim>\<open>try\<close> block: the services started so far, and how the loop
  ended.\<close>

fun startLoop ::
  "ServiceConfig list \<Rightarrow> RunningService list \<Rightarrow> world
     \<Rightarrow> unit promise \<times> RunningService list \<times> world" where
  "startLoop [] svcs w = (Fulfilled (), svcs, w)"
| "startLoop (config # configs) svcs w =
     (case startService config w of
        (Pending, w') \<Rightarrow> (Pending, svcs, w')
      | (Rejected m, w') \<Rightarrow> (Rejected m, svcs, w')
      | (Fulfilled service, w') \<Rightarrow> startLoop configs (svcs @ [service]) w')"

text \<open>
  \<^verbatim>\<open>Promise.all(services.map((s) => s.isHealthy()))\<close> followed by
  \<^verbatim>\<open>results.every(Boolean)\<close>: a rejection among the results rejects the whole, a
  result that never settles leaves it pending.
\<close>

definition allHealthy :: "RunningService list \<Rightarrow> world \<Rightarrow> bool promise" where
  "allHealthy svcs w =
     (let results = map (\<lambda>s. RunningService.isHealthy s w) svcs in
      case find (\<lambda>r. case r of Rejected m \<Rightarrow> True | _ \<Rightarrow> False) results of
        Some r \<Rightarrow> r
      | None \<Rightarrow> if Pending \<in> set results then Pending
                else Fulfilled (list_all (\<lambda>r. r = Fulfilled True) results))"

definition cluster :: "RunningService list \<Rightarrow> ServiceCluster" where
  "cluster svcs =
     \<lparr>services = svcs,
      stopAll = (\<lambda>w. stopEach (rev svcs) w),
      get = (\<lambda>nm. find (\<lambda>s. RunningService.name s = nm) svcs),
      isHealthy = (\<lambda>w. allHealthy svcs w)\<rparr>"

text \<open>
  \<^verbatim>\<open>startCluster\<close>: when a start rejects, the services started so far are stopped in
  reverse order and the rejection is thrown again; otherwise the cluster object is
  returned.
\<close>

definition startCluster :: "ServiceConfig list \<Rightarrow> world \<Rightarrow> ServiceCluster promise \<times> world" where
  "startCluster configs w =
     (case startLoop configs [] w of
        (Pending, svcs, w1) \<Rightarrow> (Pending, w1)
      | (Rejected m, svcs, w1) \<Rightarrow>
          (case stopEach (rev svcs) w1 of
             (Pending, w2) \<Rightarrow> (Pending, w2)
           | (Fulfilled u, w2) \<Rightarrow> (Rejected m, w2)
           | (Rejected m', w2) \<Rightarrow> (Rejected m, w2))
      | (Fulfilled u, svcs, w1) \<Rightarrow> (Fulfilled (cluster svcs), w1))"

section \<open>Performance assertions\<close>

record PerformanceRequirement =
  maxStartupMs :: "int option"
  maxMemoryMb :: "int option"
  maxResponseMs :: "int option"

definition startupMessage :: "string \<Rightarrow> int \<Rightarrow> int \<Rightarrow> string" where
  "startupMessage nm startup limit =
     ''['' @ nm @ ''] Startup too slow: '' @ show_int startup @ ''ms > '' @ show_int limit @ ''ms''"

definition memoryMessage :: "string \<Rightarrow> int \<Rightarrow> int \<Rightarrow> string" where
  "memoryMessage nm mem limit =
     ''['' @ nm @ ''] Memory too high: '' @ show_int mem @ ''MB > '' @ show_int limit @ ''MB''"

text \<open>\<^verbatim>\<open>assertPerformance\<close>: \<open>Inl\<close> is the message of the error it throws. Numbers
  are integral milliseconds and megabytes.\<close>

definition assertPerformance ::
  "RunningService \<Rightarrow> PerformanceRequirement \<Rightarrow> world \<Rightarrow> string + unit" where
  "assertPerformance service requirements w =
     (let memoryCheck =
            (case maxMemoryMb requirements of
               None \<Rightarrow> Inr ()
             | Some limit \<Rightarrow>
                 (case memoryMb (stats service w) of
                    None \<Rightarrow> Inr ()
                  | Some mem \<Rightarrow>
                      if mem > limit
                      then Inl (memoryMessage (RunningService.name service) mem limit)
                      else Inr ()))
      in
      case maxStartupMs requirements of
        None \<Rightarrow> memoryCheck
      | Some limit \<Rightarrow>
          if startupMs service > limit
          then Inl (startupMessage (RunningService.name service) (startupMs service) limit)
          else memoryCheck)"

section \<open>Vocabulary of the claims\<close>

text \<open>The GPU requirement of a configuration is met: \<^verbatim>\<open>startService\<close> gets past its
  first check and spawns the process.\<close>

definition gpuMet :: "ServiceConfig \<Rightarrow> world \<Rightarrow> bool" where
  "gpuMet cfg w =
     (\<not> ((case requires cfg of None \<Rightarrow> False | Some rq \<Rightarrow> gpu rq = Some True) \<and> \<not> checkGpu w))"

text \<open>The schedule the environment gives to the process spawned for a configuration,
  and the two timeouts with their defaults.\<close>

definition schedule :: "ServiceConfig \<Rightarrow> world \<Rightarrow> event list" where
  "schedule cfg w =
     launch w (command cfg) (case args cfg of None \<Rightarrow> [] | Some a \<Rightarrow> a) (cwd cfg)
       (case env cfg of None \<Rightarrow> processEnv w | Some e \<Rightarrow> processEnv w ++ e)"

definition startTimeout :: "ServiceConfig \<Rightarrow> nat" where
  "startTimeout cfg = (case startTimeoutMs cfg of None \<Rightarrow> 15000 | Some t \<Rightarrow> t)"

definition stopTimeout :: "ServiceConfig \<Rightarrow> nat" where
  "stopTimeout cfg = (case stopTimeoutMs cfg of None \<Rightarrow> 5000 | Some t \<Rightarrow> t)"

text \<open>The world in which \<^verbatim>\<open>startService\<close> begins to wait: the process is spawned and
  registered.\<close>

definition spawned :: "ServiceConfig \<Rightarrow> world \<Rightarrow> world" where
  "spawned cfg w =
     registerProcess (nextPid w)
       (snd (spawn (command cfg) (case args cfg of None \<Rightarrow> [] | Some a \<Rightarrow> a) (cwd cfg)
               (case env cfg of None \<Rightarrow> processEnv w | Some e \<Rightarrow> processEnv w ++ e) w))"

text \<open>What a schedule writes to standard output and to standard error.\<close>

fun outOf :: "event list \<Rightarrow> string" where
  "outOf [] = []"
| "outOf (StdoutData chunk # es) = chunk @ outOf es"
| "outOf (e # es) = outOf es"

fun errOf :: "event list \<Rightarrow> string" where
  "errOf [] = []"
| "errOf (StderrData chunk # es) = chunk @ errOf es"
| "errOf (e # es) = errOf es"

text \<open>At no moment of the schedule does the text \<^verbatim>\<open>stdout + stderr\<close> contain the
  signal, the buffers holding \<open>out\<close> and \<open>err\<close> at its beginning.\<close>

fun signalNeverSeen :: "string \<Rightarrow> string \<Rightarrow> string \<Rightarrow> event list \<Rightarrow> bool" where
  "signalNeverSeen sig out err [] = (\<not> js_includes (out @ err) sig)"
| "signalNeverSeen sig out err (e # es) =
     (\<not> js_includes (out @ err) sig
      \<and> signalNeverSeen sig (out @ outOf [e]) (err @ errOf [e]) es)"

text \<open>No poll request of the schedule is answered with a status from 200 to 299.\<close>

fun noPollSucceeds :: "event list \<Rightarrow> bool" where
  "noPollSucceeds [] = True"
| "noPollSucceeds (FetchDone (Response status) # es) = (\<not> ok status \<and> noPollSucceeds es)"
| "noPollSucceeds (e # es) = noPollSucceeds es"

text \<open>No exit code is recorded during the schedule; the process does not end at all
  during the schedule.\<close>

fun noExitCode :: "event list \<Rightarrow> bool" where
  "noExitCode [] = True"
| "noExitCode (ProcExit (ExitCode n) # es) = False"
| "noExitCode (e # es) = noExitCode es"

fun noExit :: "event list \<Rightarrow> bool" where
  "noExit [] = True"
| "noExit (ProcExit st # es) = False"
| "noExit (e # es) = noExit es"

text \<open>The value of \<open>isAlive()\<close> on the service a start returns, at the moment it
  returns; \<open>None\<close> when no service is returned.\<close>

definition aliveAtReady :: "RunningService promise \<times> world \<Rightarrow> bool option" where
  "aliveAtReady r =
     (case r of (Fulfilled s, w) \<Rightarrow> Some (isAlive s w) | (other, w) \<Rightarrow> None)"

text \<open>Every stop of the loop settles, each in the world the previous ones leave.\<close>

fun stopsSettle :: "RunningService list \<Rightarrow> world \<Rightarrow> bool" where
  "stopsSettle [] w = True"
| "stopsSettle (s # ss) w = (fst (stop s w) \<noteq> Pending \<and> stopsSettle ss (snd (stop s w)))"

text \<open>Calling \<open>stop()\<close> on each service of a list in turn, whatever each call yields.\<close>

definition stopInTurn :: "RunningService list \<Rightarrow> world \<Rightarrow> world" where
  "stopInTurn ss w = foldl (\<lambda>u s. snd (stop s u)) w ss"

section \<open>Concrete hosts and services used to instantiate the theorems\<close>

definition freshChild :: child where
  "freshChild = \<lparr>killed = False, exitCode = None, signalCode = None,
                  outBuf = [], errBuf = [], future = []\<rparr>"

text \<open>A host without GPU and without \<^verbatim>\<open>/proc\<close>, whose network fails every request, and
  on which a spawned command follows the schedule the given table has for it.\<close>

definition host :: "(string \<Rightarrow> event list) \<Rightarrow> world" where
  "host prog =
     \<lparr>hasGpu = False, now = 0, processEnv = Map.empty,
      launch = (\<lambda>cmd as dir e. prog cmd),
      procs = (\<lambda>p. freshChild),
      nextPid = 0, activeProcesses = [], signals = [],
      http = (\<lambda>u. Threw), procStatus = (\<lambda>p. None)\<rparr>"

definition config :: "string \<Rightarrow> Ready \<Rightarrow> ServiceConfig" where
  "config nm rd =
     \<lparr>ServiceConfig.name = nm, command = nm, args = None, cwd = None, env = None,
      ready = rd, health = None, startTimeoutMs = Some 2000, stopTimeoutMs = None,
      requires = None\<rparr>"

definition bySignal :: "string \<Rightarrow> Ready" where
  "bySignal sig = \<lparr>signal = Some sig, url = None, pollMs = None\<rparr>"

definition byUrl :: "string \<Rightarrow> Ready" where
  "byUrl u = \<lparr>signal = None, url = Some u, pollMs = None\<rparr>"

definition unconfigured :: Ready where
  "unconfigured = \<lparr>signal = None, url = None, pollMs = None\<rparr>"


text \<open>The table that gives every command the same schedule.\<close>

definition everyCommand :: "event list \<Rightarrow> string \<Rightarrow> event list" where
  "everyCommand sched cmd = sched"

text \<open>A host whose network answers every request in the same way.\<close>

definition answering :: "fetch_result \<Rightarrow> world \<Rightarrow> world" where
  "answering r w = w\<lparr>http := (\<lambda>u. r)\<rparr>"

text \<open>
  Three commands: \<open>a\<close> becomes ready and exits when it receives SIGTERM, \<open>b\<close> becomes
  ready and ignores SIGTERM until the force-kill timer fires, \<open>c\<close> exits with code 1
  before becoming ready.
\<close>

definition threeServices :: "string \<Rightarrow> event list" where
  "threeServices cmd =
     (if cmd = ''a'' then [StdoutData ''ready'', IntervalFire, ProcExit (ExitSignal ''SIGTERM'')]
      else if cmd = ''b'' then [StdoutData ''ready'', IntervalFire, StdoutData ''busy'', ForceKillFire]
      else if cmd = ''c'' then [ProcExit (ExitCode 1), IntervalFire]
      else [])"






section \<open>Facts about strings\<close>

lemma js_includes_prefix: "js_includes (sub @ q) sub"
proof (cases "sub @ q")
  case Nil
  then show ?thesis by simp
next
  case (Cons a l)
  then have "take (length sub) (a # l) = sub"
    by (metis append_eq_conv_conj)
  then show ?thesis by (simp add: Cons)
qed

lemma js_includes_mid: "js_includes (p @ sub @ q) sub"
  by (induction p) (auto simp: js_includes_prefix)

lemma startupMessage_tag: "js_includes (startupMessage nm a b) (''['' @ nm @ '']'')"
proof -
  have "startupMessage nm a b
          = [] @ (''['' @ nm @ '']'') @ ('' Startup too slow: '' @ show_int a @ ''ms > '' @ show_int b @ ''ms'')"
    by (simp add: startupMessage_def)
  then show ?thesis
    using js_includes_mid by metis
qed

lemma startupMessage_text: "js_includes (startupMessage nm a b) ''Startup too slow''"
proof -
  have "startupMessage nm a b
          = (''['' @ nm @ ''] '') @ ''Startup too slow'' @ ('': '' @ show_int a @ ''ms > '' @ show_int b @ ''ms'')"
    by (simp add: startupMessage_def)
  then show ?thesis
    using js_includes_mid by metis
qed

lemma notReadyMessage_text: "js_includes (notReadyMessage nm T out) ''Not ready within''"
proof -
  have "notReadyMessage nm T out
          = (''['' @ nm @ ''] '') @ ''Not ready within''
              @ ('' '' @ show_nat T @ ''ms.'' @ [CHR 0x0A] @ ''Output: '' @ slice_last 500 out)"
    by (simp add: notReadyMessage_def)
  then show ?thesis
    using js_includes_mid by metis
qed

lemma notReadyMessage_output: "js_includes (notReadyMessage nm T out) (slice_last 500 out)"
proof -
  have "notReadyMessage nm T out
          = (''['' @ nm @ ''] Not ready within '' @ show_nat T @ ''ms.'' @ [CHR 0x0A] @ ''Output: '')
              @ slice_last 500 out @ []"
    by (simp add: notReadyMessage_def)
  then show ?thesis
    using js_includes_mid by metis
qed

lemma noReadyMessage_tag: "js_includes (noReadyMessage nm) (''['' @ nm @ '']'')"
proof -
  have "noReadyMessage nm = [] @ (''['' @ nm @ '']'') @ '' No ready signal or URL configured''"
    by (simp add: noReadyMessage_def)
  then show ?thesis
    using js_includes_mid by metis
qed

lemma noReadyMessage_text: "js_includes (noReadyMessage nm) ''No ready signal or URL configured''"
proof -
  have "noReadyMessage nm = (''['' @ nm @ ''] '') @ ''No ready signal or URL configured'' @ []"
    by (simp add: noReadyMessage_def)
  then show ?thesis
    using js_includes_mid by metis
qed

section \<open>Facts about the event loop and the start of a service\<close>

lemma startService_Fulfilled:
  assumes "startService cfg w = (Fulfilled s, w')"
  shows "s = runningService (ServiceConfig.name cfg) (nextPid w) (now w) (now w' - now w)
               (health cfg) (case stopTimeoutMs cfg of None \<Rightarrow> 5000 | Some t \<Rightarrow> t)"
  using assms
  by (auto simp: startService_def spawn_def Let_def split: if_splits prod.splits promise.splits)

lemma drive_done: "done s \<Longrightarrow> drive h done es s = (s, es)"
  by (cases es) auto

lemma drive_append:
  "drive h done pre s = (s', []) \<Longrightarrow> drive h done (pre @ es) s = drive h done es s'"
proof (induction pre arbitrary: s)
  case Nil
  then show ?case by simp
next
  case (Cons e pre)
  then show ?case by (cases "done s") auto
qed

lemma spawned_proc:
  "procs (spawned cfg w) (nextPid w) = freshChild\<lparr>future := schedule cfg w\<rparr>"
  by (simp add: spawned_def spawn_def registerProcess_def freshChild_def schedule_def Let_def)

lemma spawned_signals: "signals (spawned cfg w) = signals w"
  by (simp add: spawned_def spawn_def registerProcess_def Let_def)

lemma spawned_registered: "nextPid w \<in> set (activeProcesses (spawned cfg w))"
  by (simp add: spawned_def spawn_def registerProcess_def Let_def)

lemma startService_gpuMet:
  assumes "gpuMet cfg w"
  shows "startService cfg w =
           (case waitForReady (nextPid w) (ServiceConfig.name cfg) (ready cfg) (startTimeout cfg)
                   (spawned cfg w) of
              (Pending, w3) \<Rightarrow> (Pending, w3)
            | (Rejected m, w3) \<Rightarrow> (Rejected m, w3)
            | (Fulfilled u, w3) \<Rightarrow>
                (Fulfilled (runningService (ServiceConfig.name cfg) (nextPid w) (now w)
                              (now w3 - now w) (health cfg) (stopTimeout cfg)), w3))"
  using assms
  unfolding startService_def gpuMet_def spawned_def spawn_def startTimeout_def
        stopTimeout_def Let_def
  by auto

lemma updProc_same_future [simp]: "updProc p (\<lambda>c. c\<lparr>future := future (procs w p)\<rparr>) w = w"
  by (simp add: updProc_def)

lemma waitForReady_unconfigured:
  assumes "\<not> truthy (signal rd)" "\<not> truthy (Ready.url rd)"
  shows "waitForReady p nm rd T w = (Rejected (noReadyMessage nm), w)"
  using assms by (simp add: waitForReady_def waitInit_def drive_done)


lemma procs_updProc [simp]: "procs (updProc p f w) q = (if q = p then f (procs w p) else procs w q)"
  by (simp add: updProc_def)

lemma signals_updProc [simp]: "signals (updProc p f w) = signals w"
  by (simp add: updProc_def)

lemma exitCode_onExit:
  "exitCode (procs (onExit p st w) p) =
     (if terminated (procs w p) then exitCode (procs w p)
      else (case st of ExitCode n \<Rightarrow> Some n | ExitSignal x \<Rightarrow> exitCode (procs w p)))"
  by (simp add: onExit_def split: exit_status.splits)

lemma bufs_onExit [simp]:
  "outBuf (procs (onExit p st w) p) = outBuf (procs w p)"
  "errBuf (procs (onExit p st w) p) = errBuf (procs w p)"
  by (simp_all add: onExit_def split: exit_status.splits)

lemma signal_quiet:
  assumes "truthy (signal rd)"
    and "result ws = Pending" "timeoutSet ws" "intervalSet ws" "inflight ws = 0"
    and "TimeoutFire \<notin> set pre" "noExitCode pre" "exitCode (procs w p) = None"
    and "signalNeverSeen (the (signal rd)) (outBuf (procs w p)) (errBuf (procs w p)) pre"
  shows "\<exists>ws' w'. drive (waitStep p nm rd T) (\<lambda>s. result (fst s) \<noteq> Pending) pre (ws, w)
                     = ((ws', w'), [])
           \<and> result ws' = Pending \<and> timeoutSet ws'
           \<and> outBuf (procs w' p) = outBuf (procs w p) @ outOf pre
           \<and> errBuf (procs w' p) = errBuf (procs w p) @ errOf pre"
  using assms
proof (induction pre arbitrary: ws w)
  case Nil
  then show ?case by simp
next
  case (Cons e pre)
  show ?case
  proof (cases e)
    case (StdoutData c)
    with Cons.prems Cons.IH [of ws "baseEvent p e w"] show ?thesis
      by (simp add: waitStep_def baseEvent_def)
  next
    case (StderrData c)
    with Cons.prems Cons.IH [of ws "baseEvent p e w"] show ?thesis
      by (simp add: waitStep_def baseEvent_def)
  next
    case (ProcExit st)
    with Cons.prems Cons.IH [of ws "baseEvent p e w"] show ?thesis
      by (cases st) (simp_all add: waitStep_def baseEvent_def exitCode_onExit)
  next
    case IntervalFire
    with Cons.prems Cons.IH [of ws w] show ?thesis
      by (simp add: waitStep_def onSignalInterval_def getOutput_def)
  next
    case (FetchDone r)
    with Cons.prems Cons.IH [of ws w] show ?thesis
      by (simp add: waitStep_def onFetchDone_def)
  next
    case TimeoutFire
    with Cons.prems show ?thesis by simp
  next
    case ForceKillFire
    with Cons.prems Cons.IH [of ws "baseEvent p e w"] show ?thesis
      by (simp add: waitStep_def baseEvent_def)
  next
    case (Elapse n)
    with Cons.prems Cons.IH [of ws "baseEvent p e w"] show ?thesis
      by (simp add: waitStep_def baseEvent_def)
  qed
qed


lemma url_quiet:
  assumes "\<not> truthy (signal rd)"
    and "result ws = Pending" "timeoutSet ws"
    and "TimeoutFire \<notin> set pre" "noPollSucceeds pre"
  shows "\<exists>ws' w'. drive (waitStep p nm rd T) (\<lambda>s. result (fst s) \<noteq> Pending) pre (ws, w)
                     = ((ws', w'), [])
           \<and> result ws' = Pending \<and> timeoutSet ws'
           \<and> outBuf (procs w' p) = outBuf (procs w p) @ outOf pre
           \<and> errBuf (procs w' p) = errBuf (procs w p) @ errOf pre"
  using assms
proof (induction pre arbitrary: ws w)
  case Nil
  then show ?case by simp
next
  case (Cons e pre)
  show ?case
  proof (cases e)
    case (StdoutData c)
    with Cons.prems Cons.IH [of ws "baseEvent p e w"] show ?thesis
      by (simp add: waitStep_def baseEvent_def)
  next
    case (StderrData c)
    with Cons.prems Cons.IH [of ws "baseEvent p e w"] show ?thesis
      by (simp add: waitStep_def baseEvent_def)
  next
    case (ProcExit st)
    with Cons.prems Cons.IH [of ws "baseEvent p e w"] show ?thesis
      by (simp add: waitStep_def baseEvent_def)
  next
    case IntervalFire
    with Cons.prems Cons.IH [of ws w] Cons.IH [of "ws\<lparr>inflight := Suc (inflight ws)\<rparr>" w]
    show ?thesis
      by (simp add: waitStep_def)
  next
    case (FetchDone r)
    with Cons.prems Cons.IH [of ws w] Cons.IH [of "ws\<lparr>inflight := inflight ws - 1\<rparr>" w]
    show ?thesis
      by (cases r) (simp_all add: waitStep_def onFetchDone_def)
  next
    case TimeoutFire
    with Cons.prems show ?thesis by simp
  next
    case ForceKillFire
    with Cons.prems Cons.IH [of ws "baseEvent p e w"] show ?thesis
      by (simp add: waitStep_def baseEvent_def)
  next
    case (Elapse n)
    with Cons.prems Cons.IH [of ws "baseEvent p e w"] show ?thesis
      by (simp add: waitStep_def baseEvent_def)
  qed
qed

lemma timeout_step:
  assumes "result ws = Pending" "timeoutSet ws"
  shows "drive (waitStep p nm rd T) (\<lambda>s. result (fst s) \<noteq> Pending) (TimeoutFire # post) (ws, w)
           = ((ws\<lparr>timeoutSet := False, result := Rejected (notReadyMessage nm T (getOutput p w))\<rparr>,
               kill p SIGKILL w), post)"
proof -
  have k: "getOutput p (kill p SIGKILL w) = getOutput p w"
    by (simp add: getOutput_def kill_def)
  show ?thesis
    using assms by (simp add: waitStep_def onTimeout_def settle_def Let_def drive_done k)
qed

lemma kill_effect:
  "terminated (procs (kill p sig w) p)
   \<or> (killed (procs (kill p sig w) p) \<and> (p, sig) \<in> set (signals (kill p sig w)))"
  by (simp add: kill_def terminated_def)

lemma signal_success:
  assumes "truthy (signal rd)"
    and "result ws = Pending" "timeoutSet ws" "intervalSet ws" "inflight ws = 0"
    and "TimeoutFire \<notin> set pre" "noExit pre"
    and "\<not> killed (procs w p)" "exitCode (procs w p) = None"
    and "js_includes ((outBuf (procs w p) @ outOf pre) @ (errBuf (procs w p) @ errOf pre))
           (the (signal rd))"
  shows "\<exists>ws' w' rest.
           drive (waitStep p nm rd T) (\<lambda>s. result (fst s) \<noteq> Pending)
                 (pre @ IntervalFire # post) (ws, w) = ((ws', w'), rest)
           \<and> result ws' = Fulfilled () \<and> \<not> killed (procs w' p) \<and> exitCode (procs w' p) = None"
  using assms
proof (induction pre arbitrary: ws w)
  case Nil
  then show ?case
    by (simp add: waitStep_def onSignalInterval_def getOutput_def settle_def drive_done)
next
  case (Cons e pre)
  show ?case
  proof (cases e)
    case (StdoutData c)
    with Cons.prems Cons.IH [of ws "baseEvent p e w"] show ?thesis
      by (simp add: waitStep_def baseEvent_def)
  next
    case (StderrData c)
    with Cons.prems Cons.IH [of ws "baseEvent p e w"] show ?thesis
      by (simp add: waitStep_def baseEvent_def)
  next
    case (ProcExit st)
    with Cons.prems show ?thesis by simp
  next
    case IntervalFire
    show ?thesis
    proof (cases "js_includes (getOutput p w) (the (signal rd))")
      case True
      with IntervalFire Cons.prems show ?thesis
        by (simp add: waitStep_def onSignalInterval_def settle_def drive_done)
    next
      case False
      with IntervalFire Cons.prems Cons.IH [of ws w] show ?thesis
        by (simp add: waitStep_def onSignalInterval_def)
    qed
  next
    case (FetchDone r)
    with Cons.prems Cons.IH [of ws w] show ?thesis
      by (simp add: waitStep_def onFetchDone_def)
  next
    case TimeoutFire
    with Cons.prems show ?thesis by simp
  next
    case ForceKillFire
    with Cons.prems Cons.IH [of ws "baseEvent p e w"] show ?thesis
      by (simp add: waitStep_def baseEvent_def)
  next
    case (Elapse n)
    with Cons.prems Cons.IH [of ws "baseEvent p e w"] show ?thesis
      by (simp add: waitStep_def baseEvent_def)
  qed
qed

section \<open>Facts about stopping\<close>





















section \<open>Facts about clusters\<close>


lemma stopEach_settles:
  "stopsSettle ss w \<Longrightarrow> stopEach ss w = (Fulfilled (), stopInTurn ss w)"
proof (induction ss arbitrary: w)
  case Nil
  then show ?case by (simp add: stopInTurn_def)
next
  case (Cons s ss)
  then have "stopEach ss (snd (stop s w)) = (Fulfilled (), stopInTurn ss (snd (stop s w)))"
    by simp
  with Cons.prems show ?case
    by (cases "stop s w") (auto simp: stopInTurn_def split: promise.splits)
qed

lemma startCluster_Fulfilled:
  "startCluster configs w = (Fulfilled cl, w') \<Longrightarrow> cl = cluster (services cl)"
  by (auto simp: startCluster_def cluster_def split: prod.splits promise.splits)

lemma startLoop_append:
  "startLoop (xs @ ys) svcs w =
     (case startLoop xs svcs w of
        (Fulfilled u, svcs', w') \<Rightarrow> startLoop ys svcs' w'
      | (Pending, svcs', w') \<Rightarrow> (Pending, svcs', w')
      | (Rejected m, svcs', w') \<Rightarrow> (Rejected m, svcs', w'))"
  by (induction xs arbitrary: svcs w) (auto split: prod.splits promise.splits)

lemma startLoop_names:
  "startLoop xs svcs w = (Fulfilled u, svcs', w') \<Longrightarrow>
     map RunningService.name svcs' = map RunningService.name svcs @ map ServiceConfig.name xs"
proof (induction xs arbitrary: svcs w)
  case Nil
  then show ?case by simp
next
  case (Cons c xs)
  from Cons.prems obtain s w1 where
    st: "startService c w = (Fulfilled s, w1)"
    and rest: "startLoop xs (svcs @ [s]) w1 = (Fulfilled u, svcs', w')"
    by (auto split: prod.splits promise.splits)
  have "RunningService.name s = ServiceConfig.name c"
    unfolding startService_Fulfilled [OF st] by (simp add: runningService_def)
  with Cons.IH [OF rest] show ?case by simp
qed

section \<open>Evaluating concrete runs\<close>

lemmas start_eval = startService_def spawn_def registerProcess_def waitForReady_def waitInit_def
  waitStep_def onTimeout_def onSignalInterval_def onFetchDone_def baseEvent_def onExit_def kill_def
  updProc_def settle_def getOutput_def terminated_def truthy_def checkGpu_def host_def config_def
  freshChild_def bySignal_def everyCommand_def Let_def

lemmas message_eval = notReadyMessage_def exitedMessage_def noReadyMessage_def slice_last_def
  show_nat.simps show_int_def digit_def

lemmas stop_eval = stopProcess_def stopStep_def stopInTurn_def runningService_def

section \<open>C1: neither a ready signal nor a URL\<close>

text \<open>
  Claim C1, what the code does. With neither a signal nor a URL (and the GPU requirement
  met) \<open>startService\<close> rejects at once, before any event of the process, with
  \<open>[name] No ready signal or URL configured\<close>. The process has been spawned and
  registered by then, and nothing kills it: no signal is sent, its handle is neither
  killed nor terminated, and its whole schedule is still ahead of it. The claim says
  that the process is killed before the error is reported.
\<close>

theorem unconfigured_leaves_process_running:
  assumes gpu: "gpuMet cfg w"
    and none: "\<not> truthy (signal (ready cfg))" "\<not> truthy (Ready.url (ready cfg))"
  shows "startService cfg w = (Rejected (noReadyMessage (ServiceConfig.name cfg)), spawned cfg w)
         \<and> js_includes (noReadyMessage (ServiceConfig.name cfg)) (''['' @ ServiceConfig.name cfg @ '']'')
         \<and> js_includes (noReadyMessage (ServiceConfig.name cfg)) ''No ready signal or URL configured''
         \<and> future (procs (spawned cfg w) (nextPid w)) = schedule cfg w
         \<and> \<not> killed (procs (spawned cfg w) (nextPid w))
         \<and> \<not> terminated (procs (spawned cfg w) (nextPid w))
         \<and> signals (spawned cfg w) = signals w
         \<and> nextPid w \<in> set (activeProcesses (spawned cfg w))"
  using noReadyMessage_tag [of "ServiceConfig.name cfg"]
        noReadyMessage_text [of "ServiceConfig.name cfg"]
  by (simp add: startService_gpuMet [OF gpu] waitForReady_unconfigured [OF none]
        spawned_proc spawned_signals spawned_registered freshChild_def terminated_def)

text \<open>A service without ready descriptor whose process prints \<open>up\<close> after 100 ms and
  keeps running.\<close>

theorem unconfigured_leaves_process_running_witness:
  "fst (startService (config ''svc'' unconfigured)
          (host (everyCommand [Elapse 100, StdoutData ''up''])))
     = Rejected ''[svc] No ready signal or URL configured''
   \<and> procs (snd (startService (config ''svc'' unconfigured)
                   (host (everyCommand [Elapse 100, StdoutData ''up''])))) 0
       = \<lparr>killed = False, exitCode = None, signalCode = None, outBuf = [], errBuf = [],
          future = [Elapse 100, StdoutData ''up'']\<rparr>
   \<and> signals (snd (startService (config ''svc'' unconfigured)
                     (host (everyCommand [Elapse 100, StdoutData ''up''])))) = []"
proof -
  let ?cfg = "config ''svc'' unconfigured"
  let ?w = "host (everyCommand [Elapse 100, StdoutData ''up''])"
  have h1: "gpuMet ?cfg ?w" by (simp add: gpuMet_def config_def)
  have h2: "\<not> truthy (signal (ready ?cfg))" "\<not> truthy (Ready.url (ready ?cfg))"
    by (simp_all add: config_def unconfigured_def truthy_def)
  have nm: "ServiceConfig.name ?cfg = ''svc''" by (simp add: config_def)
  have w: "nextPid ?w = 0" "signals ?w = []" by (simp_all add: host_def)
  have sc: "schedule ?cfg ?w = [Elapse 100, StdoutData ''up'']"
    by (simp add: schedule_def host_def config_def everyCommand_def)
  from unconfigured_leaves_process_running [OF h1 h2]
  have r: "fst (startService ?cfg ?w) = Rejected (noReadyMessage (ServiceConfig.name ?cfg))"
    and s: "snd (startService ?cfg ?w) = spawned ?cfg ?w"
    by simp_all
  have c: "procs (spawned ?cfg ?w) 0 = freshChild\<lparr>future := [Elapse 100, StdoutData ''up'']\<rparr>"
    using spawned_proc [of ?cfg ?w] by (simp add: w sc)
  show ?thesis
    by (simp add: r s c nm w noReadyMessage_def freshChild_def spawned_signals)
qed

section \<open>C2: exit before readiness\<close>

text \<open>
  Claim C2 at a failing input. With the URL strategy the exit of the process is never
  looked at: a process that writes \<open>boom\<close> and exits with code 1 after 20 ms, while the
  URL keeps failing, is reported only when the start timeout fires after 2000 ms, with
  the timeout message and without the exit code, although the handle has recorded the
  code.
\<close>

theorem url_exit_unnoticed:
  "fst (startService (config ''api'' (byUrl ''http://localhost:8000/health''))
          (host (everyCommand
             [Elapse 20, StderrData ''boom'', ProcExit (ExitCode 1),
              Elapse 480, IntervalFire, FetchDone Threw,
              Elapse 500, IntervalFire, FetchDone Threw,
              Elapse 500, IntervalFire, FetchDone Threw,
              Elapse 500, TimeoutFire])))
     = Rejected (''[api] Not ready within 2000ms.'' @ [CHR 0x0A] @ ''Output: boom'')
   \<and> exitCode (procs (snd (startService (config ''api'' (byUrl ''http://localhost:8000/health''))
          (host (everyCommand
             [Elapse 20, StderrData ''boom'', ProcExit (ExitCode 1),
              Elapse 480, IntervalFire, FetchDone Threw,
              Elapse 500, IntervalFire, FetchDone Threw,
              Elapse 500, IntervalFire, FetchDone Threw,
              Elapse 500, TimeoutFire])))) 0) = Some 1"
proof -
  let ?cfg = "config ''api'' (byUrl ''http://localhost:8000/health'')"
  let ?w = "host (everyCommand
             [Elapse 20, StderrData ''boom'', ProcExit (ExitCode 1),
              Elapse 480, IntervalFire, FetchDone Threw,
              Elapse 500, IntervalFire, FetchDone Threw,
              Elapse 500, IntervalFire, FetchDone Threw,
              Elapse 500, TimeoutFire])"
  have rejected: "fst (startService ?cfg ?w)
                    = Rejected (''[api] Not ready within 2000ms.'' @ [CHR 0x0A] @ ''Output: boom'')"
    by (simp add: start_eval message_eval byUrl_def)
  have recorded: "exitCode (procs (snd (startService ?cfg ?w)) 0) = Some 1"
    by (simp add: start_eval byUrl_def)
  from rejected recorded show ?thesis by simp
qed

section \<open>C3: start timeout\<close>

text \<open>
  Claim C3 as stated fails: a process that exits with code 1 without ever printing the
  signal, well within the timeout, makes \<open>startService\<close> reject with the exit message,
  which does not contain \<open>Not ready within\<close>.
\<close>

theorem timeout_claim_counterexample:
  "signalNeverSeen ''never'' [] [] [Elapse 20, ProcExit (ExitCode 1), Elapse 30, IntervalFire]
   \<and> fst (startService (config ''failing'' (bySignal ''never''))
            (host (everyCommand [Elapse 20, ProcExit (ExitCode 1), Elapse 30, IntervalFire])))
       = Rejected (''[failing] Exited with code 1 before ready.'' @ [CHR 0x0A] @ ''Output: '')
   \<and> \<not> js_includes (''[failing] Exited with code 1 before ready.'' @ [CHR 0x0A] @ ''Output: '')
          ''Not ready within''"
  by (simp add: start_eval message_eval)

text \<open>
  Claim C3, as amended. Let a signal or a URL be configured and the GPU requirement be
  met. If the start timeout fires before readiness is detected and, for the signal
  strategy, before an exit code is recorded (at no moment before it does the output
  contain the signal and the process does not exit with a code; respectively no poll
  request before it is answered with a 2xx status), then \<open>startService\<close> rejects with
  \<open>[name] Not ready within <timeout>ms.\<close> followed by the last 500 characters of the
  output, and SIGKILL has been sent to the process and its handle is marked killed,
  unless the process had already terminated.
\<close>

theorem timeout_rejects_and_kills:
  assumes gpu: "gpuMet cfg w"
    and conf: "truthy (signal (ready cfg)) \<or> truthy (Ready.url (ready cfg))"
    and sched: "schedule cfg w = pre @ TimeoutFire # post"
    and first: "TimeoutFire \<notin> set pre"
    and sig: "truthy (signal (ready cfg)) \<Longrightarrow>
                signalNeverSeen (the (signal (ready cfg))) [] [] pre \<and> noExitCode pre"
    and poll: "\<not> truthy (signal (ready cfg)) \<Longrightarrow> noPollSucceeds pre"
  shows "fst (startService cfg w)
           = Rejected (notReadyMessage (ServiceConfig.name cfg) (startTimeout cfg)
                         (outOf pre @ errOf pre))
         \<and> js_includes (notReadyMessage (ServiceConfig.name cfg) (startTimeout cfg)
                          (outOf pre @ errOf pre)) ''Not ready within''
         \<and> js_includes (notReadyMessage (ServiceConfig.name cfg) (startTimeout cfg)
                          (outOf pre @ errOf pre)) (slice_last 500 (outOf pre @ errOf pre))
         \<and> (terminated (procs (snd (startService cfg w)) (nextPid w))
             \<or> (killed (procs (snd (startService cfg w)) (nextPid w))
                 \<and> (nextPid w, SIGKILL) \<in> set (signals (snd (startService cfg w)))))"
proof -
  let ?p = "nextPid w" and ?nm = "ServiceConfig.name cfg" and ?rd = "ready cfg"
  let ?T = "startTimeout cfg" and ?w2 = "spawned cfg w"
  let ?h = "waitStep ?p ?nm ?rd ?T" and ?d = "\<lambda>s :: wait \<times> world. result (fst s) \<noteq> Pending"
  let ?ws0 = "waitInit ?nm ?rd"
  have init: "result ?ws0 = Pending" "timeoutSet ?ws0" "intervalSet ?ws0" "inflight ?ws0 = 0"
    using conf by (auto simp: waitInit_def)
  have c0: "procs ?w2 ?p = freshChild\<lparr>future := pre @ TimeoutFire # post\<rparr>"
    by (simp add: spawned_proc sched)
  have "\<exists>ws' w'. drive ?h ?d pre (?ws0, ?w2) = ((ws', w'), [])
           \<and> result ws' = Pending \<and> timeoutSet ws'
           \<and> outBuf (procs w' ?p) = outBuf (procs ?w2 ?p) @ outOf pre
           \<and> errBuf (procs w' ?p) = errBuf (procs ?w2 ?p) @ errOf pre"
  proof (cases "truthy (signal ?rd)")
    case True
    with sig have "signalNeverSeen (the (signal ?rd)) (outBuf (procs ?w2 ?p)) (errBuf (procs ?w2 ?p)) pre"
      and "noExitCode pre" by (simp_all add: c0 freshChild_def)
    moreover have "exitCode (procs ?w2 ?p) = None" by (simp add: c0 freshChild_def)
    ultimately show ?thesis
      using signal_quiet [OF True init first] by blast
  next
    case False
    with poll have "noPollSucceeds pre" by simp
    then show ?thesis
      using url_quiet [OF False init(1,2) first] by blast
  qed
  then obtain ws' w' where
    d1: "drive ?h ?d pre (?ws0, ?w2) = ((ws', w'), [])"
    and p1: "result ws' = Pending" "timeoutSet ws'"
    and o1: "outBuf (procs w' ?p) = outOf pre" "errBuf (procs w' ?p) = errOf pre"
    by (auto simp: c0 freshChild_def)
  have d2: "drive ?h ?d (pre @ TimeoutFire # post) (?ws0, ?w2)
              = ((ws'\<lparr>timeoutSet := False,
                       result := Rejected (notReadyMessage ?nm ?T (getOutput ?p w'))\<rparr>,
                  kill ?p SIGKILL w'), post)"
    using drive_append [OF d1] timeout_step [OF p1] by simp
  have out: "getOutput ?p w' = outOf pre @ errOf pre"
    by (simp add: getOutput_def o1)
  have wr: "waitForReady ?p ?nm ?rd ?T ?w2
              = (Rejected (notReadyMessage ?nm ?T (outOf pre @ errOf pre)),
                 updProc ?p (\<lambda>c. c\<lparr>future := post\<rparr>) (kill ?p SIGKILL w'))"
    by (simp add: waitForReady_def c0 d2 out)
  have st: "startService cfg w
              = (Rejected (notReadyMessage ?nm ?T (outOf pre @ errOf pre)),
                 updProc ?p (\<lambda>c. c\<lparr>future := post\<rparr>) (kill ?p SIGKILL w'))"
    by (simp add: startService_gpuMet [OF gpu] wr)
  show ?thesis
    using kill_effect [of ?p SIGKILL w']
    by (simp add: st notReadyMessage_text notReadyMessage_output terminated_def)
qed

text \<open>A process that writes \<open>boom\<close> to standard error, never prints the signal and is
  killed when the timeout of 2000 ms fires.\<close>

theorem timeout_rejects_and_kills_witness:
  "fst (startService (config ''slow-starter'' (bySignal ''never''))
          (host (everyCommand [Elapse 50, IntervalFire, StderrData ''boom'', Elapse 1950,
                               TimeoutFire, IntervalFire])))
     = Rejected (''[slow-starter] Not ready within 2000ms.'' @ [CHR 0x0A] @ ''Output: boom'')
   \<and> killed (procs (snd (startService (config ''slow-starter'' (bySignal ''never''))
          (host (everyCommand [Elapse 50, IntervalFire, StderrData ''boom'', Elapse 1950,
                               TimeoutFire, IntervalFire])))) 0)
   \<and> signals (snd (startService (config ''slow-starter'' (bySignal ''never''))
          (host (everyCommand [Elapse 50, IntervalFire, StderrData ''boom'', Elapse 1950,
                               TimeoutFire, IntervalFire])))) = [(0, SIGKILL)]"
proof -
  let ?cfg = "config ''slow-starter'' (bySignal ''never'')"
  let ?pre = "[Elapse 50, IntervalFire, StderrData ''boom'', Elapse 1950]"
  let ?w = "host (everyCommand (?pre @ [TimeoutFire, IntervalFire]))"
  have h1: "gpuMet ?cfg ?w" by (simp add: gpuMet_def config_def)
  have h2: "truthy (signal (ready ?cfg)) \<or> truthy (Ready.url (ready ?cfg))"
    by (simp add: config_def bySignal_def truthy_def)
  have h3: "schedule ?cfg ?w = ?pre @ TimeoutFire # [IntervalFire]"
    by (simp add: schedule_def host_def config_def everyCommand_def)
  have h4: "TimeoutFire \<notin> set ?pre" by simp
  have h5: "truthy (signal (ready ?cfg)) \<Longrightarrow>
              signalNeverSeen (the (signal (ready ?cfg))) [] [] ?pre \<and> noExitCode ?pre"
    by (simp add: config_def bySignal_def)
  have h6: "\<not> truthy (signal (ready ?cfg)) \<Longrightarrow> noPollSucceeds ?pre" by simp
  show ?thesis
    using timeout_rejects_and_kills [OF h1 h2 h3 h4 h5 h6]
    by (simp add: message_eval startTimeout_def start_eval)
qed

section \<open>C4: ready signal\<close>

text \<open>
  Claim C4 as stated fails: a process that prints the signal after 5 ms and exits 5 ms
  later has emitted the signal before exiting and before the timeout; the first poll,
  at 50 ms, finds the signal and resolves, and \<open>isAlive()\<close> is false on the service
  returned.
\<close>

theorem ready_then_exit_counterexample:
  "aliveAtReady (startService (config ''echo-server'' (bySignal ''Ready on port''))
      (host (everyCommand [Elapse 5, StdoutData ''Ready on port 4321'', Elapse 5,
                           ProcExit (ExitCode 0), Elapse 40, IntervalFire])))
     = Some False"
  by (simp add: aliveAtReady_def start_eval runningService_def)

text \<open>
  Claim C4, as amended. Let the signal \<open>S\<close> be configured and the GPU requirement be
  met. If at some firing of the 50 ms poll the output \<^verbatim>\<open>stdout + stderr\<close> contains
  \<open>S\<close>, and before that firing the start timeout has not fired and the process has not
  ended, then \<open>startService\<close> resolves with a service on which \<open>isAlive()\<close> is true.
\<close>

theorem signal_resolves_alive:
  assumes gpu: "gpuMet cfg w"
    and conf: "truthy (signal (ready cfg))"
    and sched: "schedule cfg w = pre @ IntervalFire # post"
    and first: "TimeoutFire \<notin> set pre"
    and running: "noExit pre"
    and seen: "js_includes (outOf pre @ errOf pre) (the (signal (ready cfg)))"
  shows "aliveAtReady (startService cfg w) = Some True"
proof -
  let ?p = "nextPid w" and ?nm = "ServiceConfig.name cfg" and ?rd = "ready cfg"
  let ?T = "startTimeout cfg" and ?w2 = "spawned cfg w"
  let ?h = "waitStep ?p ?nm ?rd ?T" and ?d = "\<lambda>s :: wait \<times> world. result (fst s) \<noteq> Pending"
  let ?ws0 = "waitInit ?nm ?rd"
  have init: "result ?ws0 = Pending" "timeoutSet ?ws0" "intervalSet ?ws0" "inflight ?ws0 = 0"
    using conf by (auto simp: waitInit_def)
  have c0: "procs ?w2 ?p = freshChild\<lparr>future := pre @ IntervalFire # post\<rparr>"
    by (simp add: spawned_proc sched)
  have k0: "\<not> killed (procs ?w2 ?p)" "exitCode (procs ?w2 ?p) = None"
    by (simp_all add: c0 freshChild_def)
  have s0: "js_includes ((outBuf (procs ?w2 ?p) @ outOf pre) @ (errBuf (procs ?w2 ?p) @ errOf pre))
              (the (signal ?rd))"
    using seen by (simp add: c0 freshChild_def)
  obtain ws' w' rest where
    d: "drive ?h ?d (pre @ IntervalFire # post) (?ws0, ?w2) = ((ws', w'), rest)"
    and r: "result ws' = Fulfilled ()"
    and a: "\<not> killed (procs w' ?p)" "exitCode (procs w' ?p) = None"
    using signal_success [OF conf init first running k0 s0] by blast
  have wr: "waitForReady ?p ?nm ?rd ?T ?w2
              = (Fulfilled (), updProc ?p (\<lambda>c. c\<lparr>future := rest\<rparr>) w')"
    by (simp add: waitForReady_def c0 d r)
  show ?thesis
    using a
    by (simp add: startService_gpuMet [OF gpu] wr aliveAtReady_def runningService_def)
qed

text \<open>A server that prints its signal in two chunks after 30 ms and keeps running.\<close>

theorem signal_resolves_alive_witness:
  "aliveAtReady (startService (config ''echo-server'' (bySignal ''Ready on port''))
      (host (everyCommand [Elapse 30, StdoutData ''Ready on '', StdoutData ''port 4321'',
                           Elapse 20, IntervalFire])))
     = Some True"
proof -
  let ?cfg = "config ''echo-server'' (bySignal ''Ready on port'')"
  let ?pre = "[Elapse 30, StdoutData ''Ready on '', StdoutData ''port 4321'', Elapse 20]"
  let ?w = "host (everyCommand (?pre @ [IntervalFire]))"
  have h1: "gpuMet ?cfg ?w" by (simp add: gpuMet_def config_def)
  have h2: "truthy (signal (ready ?cfg))"
    by (simp add: config_def bySignal_def truthy_def)
  have h3: "schedule ?cfg ?w = ?pre @ IntervalFire # []"
    by (simp add: schedule_def host_def config_def everyCommand_def)
  have h4: "TimeoutFire \<notin> set ?pre" by simp
  have h5: "noExit ?pre" by simp
  have h6: "js_includes (outOf ?pre @ errOf ?pre) (the (signal (ready ?cfg)))"
    by (simp add: config_def bySignal_def)
  show ?thesis
    using signal_resolves_alive [OF h1 h2 h3 h4 h5 h6] by simp
qed

section \<open>C5: rollback of a cluster start\<close>

text \<open>
  Claim C5. Let the first members \<open>pre\<close> of the list start one after the other, giving
  the services \<open>started\<close>, and let the start of the next member \<open>c\<close> then fail with
  \<open>e\<close>. Then \<open>startCluster\<close> calls \<open>stop()\<close> on the services of \<open>started\<close>, last
  started first, each in the world the previous call leaves and whatever each call
  yields, on no other service, and rejects with \<open>e\<close>; the members after \<open>c\<close> are
  never started. Each \<open>stop()\<close> is awaited, so the calls are assumed to settle.
\<close>

theorem cluster_rollback:
  assumes before: "startLoop pre [] w = (Fulfilled (), started, w1)"
    and fails: "startService c w1 = (Rejected e, w2)"
    and settle: "stopsSettle (rev started) w2"
  shows "startCluster (pre @ c # post) w = (Rejected e, stopInTurn (rev started) w2)
         \<and> map RunningService.name started = map ServiceConfig.name pre"
proof -
  have "startLoop (pre @ c # post) [] w = (Rejected e, started, w2)"
    by (simp add: startLoop_append before fails)
  then show ?thesis
    using startLoop_names [OF before]
    by (simp add: startCluster_def stopEach_settles [OF settle])
qed

text \<open>Four services: \<open>a\<close> and \<open>b\<close> start, \<open>c\<close> fails, \<open>d\<close> is never spawned; \<open>b\<close>
  (process 1) is stopped before \<open>a\<close> (process 0).\<close>

theorem cluster_rollback_witness:
  "fst (startCluster [config ''a'' (bySignal ''ready''), config ''b'' (bySignal ''ready''),
                      config ''c'' (bySignal ''ready''), config ''d'' (bySignal ''ready'')]
          (host threeServices))
     = Rejected (''[c] Exited with code 1 before ready.'' @ [CHR 0x0A] @ ''Output: '')
   \<and> signals (snd (startCluster [config ''a'' (bySignal ''ready''), config ''b'' (bySignal ''ready''),
                      config ''c'' (bySignal ''ready''), config ''d'' (bySignal ''ready'')]
          (host threeServices)))
       = [(1, SIGTERM), (1, SIGKILL), (0, SIGTERM)]
   \<and> nextPid (snd (startCluster [config ''a'' (bySignal ''ready''), config ''b'' (bySignal ''ready''),
                      config ''c'' (bySignal ''ready''), config ''d'' (bySignal ''ready'')]
          (host threeServices))) = 3"
proof -
  let ?a = "config ''a'' (bySignal ''ready'')" and ?b = "config ''b'' (bySignal ''ready'')"
  let ?c = "config ''c'' (bySignal ''ready'')" and ?d = "config ''d'' (bySignal ''ready'')"
  let ?w = "host threeServices"
  let ?started = "[runningService ''a'' 0 0 0 None 5000, runningService ''b'' 1 0 0 None 5000]"
  let ?w1 = "snd (snd (startLoop [?a, ?b] [] ?w))"
  let ?w2 = "snd (startService ?c ?w1)"
  let ?e = "''[c] Exited with code 1 before ready.'' @ [CHR 0x0A] @ ''Output: ''"
  have l: "fst (startLoop [?a, ?b] [] ?w) = Fulfilled ()"
    "fst (snd (startLoop [?a, ?b] [] ?w)) = ?started"
    by (simp_all add: start_eval threeServices_def)
  then have h1: "startLoop [?a, ?b] [] ?w = (Fulfilled (), ?started, ?w1)"
    by (simp add: prod_eq_iff)
  have "fst (startService ?c ?w1) = Rejected ?e"
    by (simp add: start_eval message_eval threeServices_def)
  then have h2: "startService ?c ?w1 = (Rejected ?e, ?w2)"
    by (simp add: prod_eq_iff)
  have h3: "stopsSettle (rev ?started) ?w2"
    by (simp add: start_eval stop_eval drive_done threeServices_def)
  have sg: "signals (stopInTurn (rev ?started) ?w2) = [(1, SIGTERM), (1, SIGKILL), (0, SIGTERM)]"
    "nextPid (stopInTurn (rev ?started) ?w2) = 3"
    by (simp_all add: start_eval stop_eval threeServices_def)
  show ?thesis
    using cluster_rollback [OF h1 h2 h3, of "[?d]"] sg by simp
qed

section \<open>C6: stop is idempotent\<close>




section \<open>C7: stopping a cluster\<close>



section \<open>C8: health\<close>

text \<open>
  Claim C8. On a service returned by \<open>startService\<close>, \<open>isHealthy()\<close> is always
  fulfilled, never rejected: without a health URL (none given, or the empty string) with
  the value of \<open>isAlive()\<close>; with a health URL with \<open>true\<close> exactly when the request
  yields a status from 200 to 299, and with \<open>false\<close> when the request throws or yields
  another status.
\<close>

theorem isHealthy_total:
  assumes "startService cfg w = (Fulfilled s, w')"
  shows "RunningService.isHealthy s v =
           Fulfilled (case health cfg of
                        None \<Rightarrow> isAlive s v
                      | Some h \<Rightarrow>
                          if Health.url h = [] then isAlive s v
                          else (case http v (Health.url h) of
                                  Threw \<Rightarrow> False
                                | Response status \<Rightarrow> 200 \<le> status \<and> status \<le> 299))"
  unfolding startService_Fulfilled [OF assms]
  by (simp add: runningService_def ok_def split: option.splits fetch_result.splits)

text \<open>A service with a health URL, asked on hosts whose network answers 204, answers
  503, and fails.\<close>

theorem isHealthy_total_witness:
  "fst (startService ((config ''api'' (bySignal ''Listening''))
                        \<lparr>health := Some \<lparr>Health.url = ''http://localhost:8000/health''\<rparr>\<rparr>)
          (host (everyCommand [StdoutData ''Listening on port 8000'', Elapse 50, IntervalFire])))
     = Fulfilled (runningService ''api'' 0 0 50
                    (Some \<lparr>Health.url = ''http://localhost:8000/health''\<rparr>) 5000)
   \<and> RunningService.isHealthy
         (runningService ''api'' 0 0 50 (Some \<lparr>Health.url = ''http://localhost:8000/health''\<rparr>) 5000)
         (answering (Response 204) (host (everyCommand []))) = Fulfilled True
   \<and> RunningService.isHealthy
         (runningService ''api'' 0 0 50 (Some \<lparr>Health.url = ''http://localhost:8000/health''\<rparr>) 5000)
         (answering (Response 503) (host (everyCommand []))) = Fulfilled False
   \<and> RunningService.isHealthy
         (runningService ''api'' 0 0 50 (Some \<lparr>Health.url = ''http://localhost:8000/health''\<rparr>) 5000)
         (answering Threw (host (everyCommand []))) = Fulfilled False"
proof -
  let ?cfg = "(config ''api'' (bySignal ''Listening''))
                \<lparr>health := Some \<lparr>Health.url = ''http://localhost:8000/health''\<rparr>\<rparr>"
  let ?w = "host (everyCommand [StdoutData ''Listening on port 8000'', Elapse 50, IntervalFire])"
  let ?s = "runningService ''api'' 0 0 50 (Some \<lparr>Health.url = ''http://localhost:8000/health''\<rparr>) 5000"
  have f: "fst (startService ?cfg ?w) = Fulfilled ?s"
    by (simp add: start_eval)
  then have h: "startService ?cfg ?w = (Fulfilled ?s, snd (startService ?cfg ?w))"
    by (simp add: prod_eq_iff)
  have g: "health ?cfg = Some \<lparr>Health.url = ''http://localhost:8000/health''\<rparr>"
    by (simp add: config_def)
  show ?thesis
    using f isHealthy_total [OF h, of "answering (Response 204) (host (everyCommand []))"]
      isHealthy_total [OF h, of "answering (Response 503) (host (everyCommand []))"]
      isHealthy_total [OF h, of "answering Threw (host (everyCommand []))"]
    by (simp add: g answering_def)
qed

section \<open>C9 and C10: performance assertions\<close>

text \<open>
  Claim C9. With only \<open>maxStartupMs = M\<close> required, \<open>assertPerformance\<close> throws exactly
  when the recorded startup time is greater than \<open>M\<close>; the message then carries the
  name tag \<open>[name]\<close> and the words \<open>Startup too slow\<close>. For a startup time of at most
  \<open>M\<close>, the bound itself included, it returns normally.
\<close>

theorem assertPerformance_startup:
  "((\<exists>msg. assertPerformance s
             \<lparr>maxStartupMs = Some M, maxMemoryMb = None, maxResponseMs = r\<rparr> w = Inl msg
          \<and> js_includes msg (''['' @ RunningService.name s @ '']'')
          \<and> js_includes msg ''Startup too slow'') = (startupMs s > M))
   \<and> ((assertPerformance s
          \<lparr>maxStartupMs = Some M, maxMemoryMb = None, maxResponseMs = r\<rparr> w = Inr ())
        = (startupMs s \<le> M))"
proof -
  have eq: "assertPerformance s
              \<lparr>maxStartupMs = Some M, maxMemoryMb = None, maxResponseMs = r\<rparr> w =
              (if startupMs s > M
               then Inl (startupMessage (RunningService.name s) (startupMs s) M) else Inr ())"
    by (simp add: assertPerformance_def)
  show ?thesis
    unfolding eq
    using startupMessage_tag [of "RunningService.name s" "startupMs s" M]
          startupMessage_text [of "RunningService.name s" "startupMs s" M]
    by (cases "startupMs s > M") auto
qed

text \<open>A startup of exactly 1000 ms passes a bound of 1000 ms; one of 5000 ms does not.\<close>

theorem assertPerformance_startup_witness:
  "assertPerformance (runningService ''slow'' 1 0 1000 None 5000)
      \<lparr>maxStartupMs = Some 1000, maxMemoryMb = None, maxResponseMs = None\<rparr>
      (host (everyCommand [])) = Inr ()
   \<and> (\<exists>msg. assertPerformance (runningService ''slow'' 1 0 5000 None 5000)
               \<lparr>maxStartupMs = Some 1000, maxMemoryMb = None, maxResponseMs = None\<rparr>
               (host (everyCommand [])) = Inl msg
            \<and> js_includes msg (''['' @ ''slow'' @ '']'')
            \<and> js_includes msg ''Startup too slow'')"
  using assertPerformance_startup [of "runningService ''slow'' 1 0 1000 None 5000" 1000 None
          "host (everyCommand [])"]
        assertPerformance_startup [of "runningService ''slow'' 1 0 5000 None 5000" 1000 None
          "host (everyCommand [])"]
  by (simp add: runningService_def)

text \<open>
  Claim C10. With only \<open>maxMemoryMb = M\<close> required, \<open>assertPerformance\<close> returns
  normally whenever the memory reading of \<open>stats()\<close> is null, whatever \<open>M\<close> is.
\<close>

theorem assertPerformance_memory_null:
  assumes "memoryMb (stats s w) = None"
  shows "assertPerformance s \<lparr>maxStartupMs = None, maxMemoryMb = Some M, maxResponseMs = r\<rparr> w = Inr ()"
  using assms by (simp add: assertPerformance_def)

text \<open>On a host without \<^verbatim>\<open>/proc\<close> the memory reading is null, and even a negative
  bound passes.\<close>

theorem assertPerformance_memory_null_witness:
  "memoryMb (stats (runningService ''svc'' 1 0 10 None 5000) (host (everyCommand []))) = None
   \<and> assertPerformance (runningService ''svc'' 1 0 10 None 5000)
        \<lparr>maxStartupMs = None, maxMemoryMb = Some (- 5), maxResponseMs = None\<rparr>
        (host (everyCommand [])) = Inr ()"
proof -
  have h: "memoryMb (stats (runningService ''svc'' 1 0 10 None 5000) (host (everyCommand []))) = None"
    by (simp add: runningService_def getProcessMemory_def host_def)
  show ?thesis
    using h assertPerformance_memory_null [OF h, of "- 5" None] by simp
qed

end
